theory Spec2Isabelle
  imports Main
begin

section \<open>Values, errors and the HTTP boundary\<close>

text \<open>
  The adapter is the Python class \<open>HCXEmbeddings\<close> of
  \<open>langchain_hcx/embeddings/hyperclova_embedding.py\<close>. Its methods receive Python objects
  and hand Python objects back, so the model has one type of values. It holds the objects
  that \<open>json.loads\<close> can produce and \<open>json.dumps\<close> can serialise: \<open>None\<close>, booleans,
  integers, floats, strings, lists and dicts with string keys. A float is never computed
  with; it is identified by its \<open>repr\<close>. A dict is an association list whose keys are
  distinct; a lookup takes the entry of the key.
\<close>

datatype pyval =
    PNone
  | PBool bool
  | PInt int
  | PFloat string
  | PStr string
  | PList "pyval list"
  | PDict "(string \<times> pyval) list"

text \<open>\<open>isinstance(v, str)\<close> and \<open>isinstance(v, dict)\<close>.\<close>

fun isinstance_str :: "pyval \<Rightarrow> bool" where
  "isinstance_str (PStr s) = True"
| "isinstance_str v = False"

fun isinstance_dict :: "pyval \<Rightarrow> bool" where
  "isinstance_dict (PDict d) = True"
| "isinstance_dict v = False"

text \<open>
  The two HTTP libraries raise exceptions of their own classes, so a transport failure
  remembers which library raised it.
\<close>

datatype http_lib = HttpClient | Aiohttp

text \<open>
  Exceptions, each with its message. \<open>PyException result\<close> is the plain \<open>Exception\<close> of
  lines 95 and 113, whose message is \<open>"Error: "\<close> followed by \<open>str(result)\<close>, the parsed
  response; the model keeps the parsed response itself. A \<open>KeyError\<close> carries the missing
  key, and the \<open>ValueError\<close> of a lookup the name of the field that was not found.
  \<open>ValidationError\<close> is the exception of the framework that the constructor raises; it
  lists the errors it collected, each with its location and its message.
\<close>

datatype pyerr =
    TypeError string
  | ValueError string
  | KeyError string
  | IndexError
  | JSONDecodeError
  | UnicodeDecodeError
  | TransportError http_lib string
  | PyException pyval
  | ValidationError "(string \<times> string) list"

text \<open>
  \<open>json.dumps\<close> and \<open>json.loads\<close> belong to the standard library. A JSON document is
  represented by the value it encodes, and a text that is no JSON document by
  \<open>NotJson\<close>: serialising is injective on the values above and parsing inverts it.
\<close>

datatype json_text = JsonText pyval | NotJson string

definition json_dumps :: "pyval \<Rightarrow> json_text" where
  "json_dumps v = JsonText v"

fun json_loads :: "json_text \<Rightarrow> pyerr + pyval" where
  "json_loads (JsonText v) = Inr v"
| "json_loads (NotJson s) = Inl JSONDecodeError"

text \<open>
  The subscription \<open>v[key]\<close> with a string key, as lines 92, 93, 110 and 111 use it: a
  dict without the key raises \<open>KeyError\<close>, every other object raises \<open>TypeError\<close> (with a
  message that depends on the type of the object; the model has one message for all).
\<close>

fun getitem :: "pyval \<Rightarrow> string \<Rightarrow> pyerr + pyval" where
  "getitem (PDict d) key =
     (case map_of d key of None \<Rightarrow> Inl (KeyError key) | Some v \<Rightarrow> Inr v)"
| "getitem v key = Inl (TypeError ''subscription with a string key'')"

text \<open>
  One HTTP exchange, as each path starts it. The blocking path opens
  \<open>http.client.HTTPSConnection(host)\<close> and calls \<open>request(method, url, body, headers)\<close>;
  the non-blocking path calls \<open>session.post(url, data, headers)\<close> on an
  \<open>aiohttp.ClientSession\<close>.
\<close>

datatype http_call =
    HTTPSConnection_request string string string json_text "(string \<times> string) list"
  | ClientSession_post string json_text "(string \<times> string) list"

text \<open>
  A response, as far as the code reads it (it never looks at the HTTP status line). Its
  body is a byte string, and each path decodes it once. Line 89 decodes it as utf-8,
  whatever the response says: \<open>response.read().decode(encoding='utf-8')\<close>. Line 107 calls
  \<open>response.text()\<close> of aiohttp, which decodes it under the charset of the response: the one
  that its \<open>Content-Type\<close> header names, and utf-8 when the header names none and the type
  is \<open>application/json\<close>. The byte string is represented by what the two calls can make
  of it: \<open>body_utf8\<close> is the body decoded as utf-8, \<open>charset\<close> is the charset of the
  response, and \<open>body_charset\<close> is the body decoded under that charset. A decoding is
  \<open>None\<close> when the bytes are no text of the codec; then the call raises
  \<open>UnicodeDecodeError\<close>.
\<close>

record response =
  body_utf8 :: "json_text option"
  charset :: string
  body_charset :: "json_text option"

definition decoded :: "json_text option \<Rightarrow> pyerr + json_text" where
  "decoded d = (case d of None \<Rightarrow> Inl UnicodeDecodeError | Some text \<Rightarrow> Inr text)"

text \<open>\<open>response.read().decode(encoding='utf-8')\<close> of line 89.\<close>

definition read_decode_utf8 :: "response \<Rightarrow> pyerr + json_text" where
  "read_decode_utf8 r = decoded (body_utf8 r)"

text \<open>
  \<open>await response.text()\<close> of line 107. Under the charset utf-8 it is the same decoding
  as that of line 89.
\<close>

definition response_text :: "response \<Rightarrow> pyerr + json_text" where
  "response_text r =
     decoded (if charset r = ''utf-8'' then body_utf8 r else body_charset r)"

text \<open>
  The provider's side: either the transport raises, or a response arrives. The answer may
  depend on the calls made before. The state of the world is the list of calls made so
  far, oldest first.
\<close>

datatype reply = Failed string | Response response

text \<open>
  \<open>Body text\<close> is the response that a JSON interface sends: the text encoded as utf-8,
  under the charset utf-8.
\<close>

definition Body :: "json_text \<Rightarrow> reply" where
  "Body text =
     Response \<lparr>body_utf8 = Some text, charset = ''utf-8'', body_charset = Some text\<rparr>"

type_synonym provider = "http_call list \<Rightarrow> http_call \<Rightarrow> reply"

type_synonym 'a io = "http_call list \<Rightarrow> (pyerr + 'a) \<times> http_call list"

section \<open>Configuration\<close>

datatype secretstr = SecretStr string

fun get_secret_value :: "secretstr \<Rightarrow> string" where
  "get_secret_value (SecretStr s) = s"

text \<open>
  The validator \<open>check_api_keys\<close> receives the dict \<open>values\<close> of field values, keyed by
  field name. A field holds \<open>None\<close> (the default of the three secrets), a string, or a
  \<open>SecretStr\<close>. \<open>os.environ\<close> maps names to strings.
\<close>

datatype field_value = FNone | FStr string | FSecret secretstr

type_synonym values_dict = "string \<rightharpoonup> field_value"

type_synonym environ = "string \<rightharpoonup> string"

text \<open>Truth value of a field: \<open>None\<close>, the empty string and the empty secret are false.\<close>

fun truthy :: "field_value \<Rightarrow> bool" where
  "truthy FNone = False"
| "truthy (FStr s) = (s \<noteq> [])"
| "truthy (FSecret (SecretStr s)) = (s \<noteq> [])"

text \<open>
  What a lookup returns: a string (from the environment, or from the dict) or a
  \<open>SecretStr\<close> (from the dict). It is the argument type of \<open>convert_to_secret_str\<close>.
\<close>

datatype lookup_value = LStr string | LSecret secretstr

text \<open>
  \<open>langchain_core.utils.get_from_env\<close> and \<open>get_from_dict_or_env\<close>, called without a
  default: the value of the dict if the key is there and its value is true, else the
  environment variable if it is set and not empty, else \<open>ValueError\<close>.
\<close>

definition get_from_env :: "environ \<Rightarrow> string \<Rightarrow> string \<Rightarrow> pyerr + lookup_value" where
  "get_from_env environ key env_key =
     (case environ env_key of
        Some v \<Rightarrow> if v \<noteq> [] then Inr (LStr v) else Inl (ValueError key)
      | None \<Rightarrow> Inl (ValueError key))"

definition get_from_dict_or_env ::
  "environ \<Rightarrow> values_dict \<Rightarrow> string \<Rightarrow> string \<Rightarrow> pyerr + lookup_value" where
  "get_from_dict_or_env environ data key env_key =
     (case data key of
        Some (FStr s) \<Rightarrow>
          if truthy (FStr s) then Inr (LStr s) else get_from_env environ key env_key
      | Some (FSecret x) \<Rightarrow>
          if truthy (FSecret x) then Inr (LSecret x) else get_from_env environ key env_key
      | Some FNone \<Rightarrow> get_from_env environ key env_key
      | None \<Rightarrow> get_from_env environ key env_key)"

text \<open>\<open>langchain_core.utils.convert_to_secret_str\<close>.\<close>

fun convert_to_secret_str :: "lookup_value \<Rightarrow> secretstr" where
  "convert_to_secret_str (LSecret x) = x"
| "convert_to_secret_str (LStr s) = SecretStr s"

text \<open>
  \<open>check_api_keys\<close> (lines 55 to 69). The three lookups run first, in this order, then
  the three assignments, then the test of the model. \<open>values['model']\<close> raises \<open>KeyError\<close>
  when the dict has no model.
\<close>

definition check_api_keys :: "environ \<Rightarrow> values_dict \<Rightarrow> pyerr + values_dict" where
  "check_api_keys environ values =
     (case get_from_dict_or_env environ values ''api_key'' ''NCP_CLOVASTUDIO_API_KEY'' of
        Inl e \<Rightarrow> Inl e
      | Inr api_key \<Rightarrow>
     (case get_from_dict_or_env environ values ''api_gw_key'' ''NCP_APIGW_API_KEY'' of
        Inl e \<Rightarrow> Inl e
      | Inr api_gw_key \<Rightarrow>
     (case get_from_dict_or_env environ values ''app_id'' ''NCP_EMB_APP_ID'' of
        Inl e \<Rightarrow> Inl e
      | Inr app_id \<Rightarrow>
        let values = values(''api_key'' \<mapsto> FSecret (convert_to_secret_str api_key));
            values = values(''api_gw_key'' \<mapsto> FSecret (convert_to_secret_str api_gw_key));
            values = values(''app_id'' \<mapsto> FSecret (convert_to_secret_str app_id))
        in (case values ''model'' of
              None \<Rightarrow> Inl (KeyError ''model'')
            | Some m \<Rightarrow>
                if m \<notin> set [FStr ''clir-emb-dolphin'', FStr ''clir-sts-dolphin'']
                then Inl (ValueError ''Invalid model. Choose from: {'clir-emb-dolphin', 'clir-sts-dolphin'}'')
                else Inr values))))"

text \<open>
  The constructor. \<open>HCXEmbeddings\<close> is a model class of pydantic (version 1, through
  \<open>langchain_core.pydantic_v1\<close>) without a \<open>Config\<close> of its own, so calling it with keyword
  arguments runs \<open>validate_model\<close>: it goes through the fields in the order of lines 47 to
  52, takes the argument under the \<^emph>\<open>alias\<close> of the field, and ignores every keyword that
  is no alias. The aliases are \<open>api_key\<close>, \<open>apigw_key\<close> (line 49) and \<open>app_id\<close>; \<open>model\<close> and
  \<open>ncp_api_base\<close> have their names. A field without an argument gets its default,
  unvalidated. An argument is validated: a string field takes a string, and turns a
  number into its \<open>str\<close>; \<open>None\<close> is allowed where the default is \<open>None\<close>. A field whose
  argument is refused adds an error and is left out of \<open>values\<close>.
\<close>

fun str_of_nat :: "nat \<Rightarrow> string" where
  "str_of_nat n =
     (if n < 10 then [char_of (48 + n)]
      else str_of_nat (n div 10) @ [char_of (48 + n mod 10)])"

definition str_of_int :: "int \<Rightarrow> string" where
  "str_of_int i = (if i < 0 then CHR ''-'' # str_of_nat (nat (- i)) else str_of_nat (nat i))"

text \<open>\<open>pydantic.validators.str_validator\<close>; \<open>None\<close> stands for its \<open>StrError\<close>.\<close>

fun str_validator :: "pyval \<Rightarrow> string option" where
  "str_validator (PStr s) = Some s"
| "str_validator (PInt i) = Some (str_of_int i)"
| "str_validator (PFloat r) = Some r"
| "str_validator (PBool b) = Some (if b then ''True'' else ''False'')"
| "str_validator v = None"

type_synonym validation = "values_dict \<times> (string \<times> string) list"

text \<open>A field of type \<open>str\<close> with a default that is not \<open>None\<close> (lines 47 and 52).\<close>

definition validate_str_field ::
  "(string \<rightharpoonup> pyval) \<Rightarrow> string \<Rightarrow> string \<Rightarrow> string \<Rightarrow> validation \<Rightarrow> validation" where
  "validate_str_field data name alias default_value = (\<lambda>(values, errors).
     case data alias of
       None \<Rightarrow> (values(name \<mapsto> FStr default_value), errors)
     | Some PNone \<Rightarrow> (values, errors @ [(alias, ''none is not an allowed value'')])
     | Some v \<Rightarrow>
         (case str_validator v of
            None \<Rightarrow> (values, errors @ [(alias, ''str type expected'')])
          | Some s \<Rightarrow> (values(name \<mapsto> FStr s), errors)))"

text \<open>A field of type \<open>SecretStr\<close> with the default \<open>None\<close> (lines 48 to 50).\<close>

definition validate_secret_field ::
  "(string \<rightharpoonup> pyval) \<Rightarrow> string \<Rightarrow> string \<Rightarrow> validation \<Rightarrow> validation" where
  "validate_secret_field data name alias = (\<lambda>(values, errors).
     case data alias of
       None \<Rightarrow> (values(name \<mapsto> FNone), errors)
     | Some PNone \<Rightarrow> (values(name \<mapsto> FNone), errors)
     | Some v \<Rightarrow>
         (case str_validator v of
            None \<Rightarrow> (values, errors @ [(alias, ''str type expected'')])
          | Some s \<Rightarrow> (values(name \<mapsto> FSecret (SecretStr s)), errors)))"

text \<open>
  After the fields, \<open>validate_model\<close> runs the root validator \<open>check_api_keys\<close>, also when
  a field was refused (\<open>@root_validator()\<close> on line 55 does not ask to be skipped). It
  catches \<open>ValueError\<close> and \<open>TypeError\<close> and adds them to the errors; any other exception
  leaves the constructor as it is. With errors the constructor raises
  \<open>ValidationError\<close>; without, the instance holds the values that the validator returned.
\<close>

definition HCXEmbeddings :: "environ \<Rightarrow> (string \<rightharpoonup> pyval) \<Rightarrow> pyerr + values_dict" where
  "HCXEmbeddings environ data =
     (let v = (Map.empty, []);
          v = validate_str_field data ''model'' ''model'' ''clir-emb-dolphin'' v;
          v = validate_secret_field data ''api_key'' ''api_key'' v;
          v = validate_secret_field data ''api_gw_key'' ''apigw_key'' v;
          v = validate_secret_field data ''app_id'' ''app_id'' v;
          v = validate_str_field data ''ncp_api_base'' ''ncp_api_base''
                ''clovastudio.apigw.ntruss.com'' v;
          values = fst v;
          errors = snd v
      in case check_api_keys environ values of
           Inr values' \<Rightarrow> if errors = [] then Inr values' else Inl (ValidationError errors)
         | Inl (ValueError msg) \<Rightarrow> Inl (ValidationError (errors @ [(''__root__'', msg)]))
         | Inl (TypeError msg) \<Rightarrow> Inl (ValidationError (errors @ [(''__root__'', msg)]))
         | Inl e \<Rightarrow> Inl e)"

text \<open>A configured instance: the fields of lines 47 to 52, the secrets set by the validator.\<close>

record hcx_embeddings =
  model :: string
  api_key :: secretstr
  api_gw_key :: secretstr
  app_id :: secretstr
  ncp_api_base :: string

section \<open>The single-text request\<close>

text \<open>
  The end of both request functions (lines 92 to 95, 110 to 113): the comparison of
  \<open>result['status']['code']\<close> with the string \<open>'20000'\<close>, which only an equal string
  satisfies, then \<open>result['result']['embedding']\<close> or the exception.
\<close>

definition check_result :: "pyval \<Rightarrow> pyerr + pyval" where
  "check_result result =
     (case getitem result ''status'' of
        Inl e \<Rightarrow> Inl e
      | Inr status \<Rightarrow>
     (case getitem status ''code'' of
        Inl e \<Rightarrow> Inl e
      | Inr code \<Rightarrow>
        if code = PStr ''20000''
        then (case getitem result ''result'' of
                Inl e \<Rightarrow> Inl e
              | Inr r \<Rightarrow> getitem r ''embedding'')
        else Inl (PyException result)))"

text \<open>\<open>_send_request\<close> (lines 72 to 95).\<close>

definition send_request :: "provider \<Rightarrow> hcx_embeddings \<Rightarrow> pyval \<Rightarrow> pyval io" where
  "send_request net self messages sent =
     (let messages =
            (if isinstance_str messages then PDict [(''text'', messages)] else messages)
      in if \<not> isinstance_dict messages
         then (Inl (TypeError ''Messages should be a string or a dictionary with 'text' key''), sent)
         else
           let headers =
                 [(''Content-Type'', ''application/json''),
                  (''X-NCP-CLOVASTUDIO-API-KEY'', get_secret_value (api_key self)),
                  (''X-NCP-APIGW-API-KEY'', get_secret_value (api_gw_key self))];
               call = HTTPSConnection_request (ncp_api_base self) ''POST''
                        (''/testapp/v1/api-tools/embedding/'' @ model self @ ''/''
                           @ get_secret_value (app_id self))
                        (json_dumps messages) headers
           in (case net sent call of
                 Failed msg \<Rightarrow> (Inl (TransportError HttpClient msg), sent @ [call])
               | Response response \<Rightarrow>
                   (case read_decode_utf8 response of
                      Inl e \<Rightarrow> (Inl e, sent @ [call])
                    | Inr text \<Rightarrow>
                   (case json_loads text of
                      Inl e \<Rightarrow> (Inl e, sent @ [call])
                    | Inr result \<Rightarrow> (check_result result, sent @ [call])))))"

text \<open>
  Calling an \<open>async def\<close> function runs nothing: it returns a coroutine object that holds
  the body. \<open>await\<close> runs the body to its end.
\<close>

datatype 'a coroutine = Coroutine "'a io"

fun await :: "'a coroutine \<Rightarrow> 'a io" where
  "await (Coroutine body) = body"

text \<open>\<open>_asend_request\<close> (lines 98 to 113).\<close>

definition asend_request :: "provider \<Rightarrow> hcx_embeddings \<Rightarrow> pyval \<Rightarrow> pyval coroutine" where
  "asend_request net self messages = Coroutine (\<lambda>sent.
     let headers =
           [(''Content-Type'', ''application/json''),
            (''X-NCP-CLOVASTUDIO-API-KEY'', get_secret_value (api_key self)),
            (''X-NCP-APIGW-API-KEY'', get_secret_value (api_gw_key self))];
         url = ''https://'' @ ncp_api_base self @ ''/testapp/v1/api-tools/embedding/''
                 @ model self @ ''/'' @ get_secret_value (app_id self);
         call = ClientSession_post url (json_dumps messages) headers
     in (case net sent call of
           Failed msg \<Rightarrow> (Inl (TransportError Aiohttp msg), sent @ [call])
         | Response response \<Rightarrow>
             (case response_text response of
                Inl e \<Rightarrow> (Inl e, sent @ [call])
              | Inr text \<Rightarrow>
             (case json_loads text of
                Inl e \<Rightarrow> (Inl e, sent @ [call])
              | Inr result \<Rightarrow> (check_result result, sent @ [call])))))"

section \<open>Batches and queries\<close>

text \<open>
  \<open>_get_embedding\<close> (lines 116 to 122): the loop over \<open>texts\<close>, with the list
  \<open>embeddings\<close> it appends to. An exception of \<open>_send_request\<close> leaves the loop.
\<close>

fun get_embedding_loop ::
  "provider \<Rightarrow> hcx_embeddings \<Rightarrow> pyval list \<Rightarrow> pyval list \<Rightarrow> pyval list io" where
  "get_embedding_loop net self [] embeddings sent = (Inr embeddings, sent)"
| "get_embedding_loop net self (text # texts) embeddings sent =
     (case send_request net self text sent of
        (Inl e, sent') \<Rightarrow> (Inl e, sent')
      | (Inr v, sent') \<Rightarrow> get_embedding_loop net self texts (embeddings @ [v]) sent')"

definition get_embedding :: "provider \<Rightarrow> hcx_embeddings \<Rightarrow> pyval list \<Rightarrow> pyval list io" where
  "get_embedding net self texts = get_embedding_loop net self texts []"

text \<open>\<open>_aget_embedding\<close> (lines 124 to 130): the same loop, awaiting \<open>_asend_request\<close>.\<close>

fun aget_embedding_loop ::
  "provider \<Rightarrow> hcx_embeddings \<Rightarrow> pyval list \<Rightarrow> pyval list \<Rightarrow> pyval list io" where
  "aget_embedding_loop net self [] embeddings sent = (Inr embeddings, sent)"
| "aget_embedding_loop net self (text # texts) embeddings sent =
     (case await (asend_request net self text) sent of
        (Inl e, sent') \<Rightarrow> (Inl e, sent')
      | (Inr v, sent') \<Rightarrow> aget_embedding_loop net self texts (embeddings @ [v]) sent')"

definition aget_embedding ::
  "provider \<Rightarrow> hcx_embeddings \<Rightarrow> pyval list \<Rightarrow> pyval list coroutine" where
  "aget_embedding net self texts = Coroutine (aget_embedding_loop net self texts [])"

text \<open>\<open>embed_documents\<close> (line 134) and \<open>aembed_documents\<close> (line 138).\<close>

definition embed_documents :: "provider \<Rightarrow> hcx_embeddings \<Rightarrow> pyval list \<Rightarrow> pyval list io" where
  "embed_documents net self texts = get_embedding net self texts"

definition aembed_documents ::
  "provider \<Rightarrow> hcx_embeddings \<Rightarrow> pyval list \<Rightarrow> pyval list coroutine" where
  "aembed_documents net self texts = Coroutine (await (aget_embedding net self texts))"

text \<open>
  The subscription \<open>x[0]\<close> of lines 142 and 146. Its operand is a list on line 142. On
  line 146 the expression is \<open>await self.aembed_documents([text])[0]\<close>, and \<open>await\<close>
  binds weaker than a subscription: the operand of \<open>[0]\<close> is the coroutine object that
  the call returned, and the operand of \<open>await\<close> is the result of the subscription.
\<close>

datatype operand = OList "pyval list" | OCoroutine "pyval list coroutine"

fun getitem0 :: "operand \<Rightarrow> pyerr + pyval" where
  "getitem0 (OList []) = Inl IndexError"
| "getitem0 (OList (x # xs)) = Inr x"
| "getitem0 (OCoroutine c) = Inl (TypeError '''coroutine' object is not subscriptable'')"

text \<open>\<open>await v\<close> for a value \<open>v\<close> of the type above: none of them can be awaited.\<close>

definition await_value :: "pyval \<Rightarrow> pyval io" where
  "await_value v sent = (Inl (TypeError ''object can not be used in await expression''), sent)"

text \<open>\<open>embed_query\<close> (line 142).\<close>

definition embed_query :: "provider \<Rightarrow> hcx_embeddings \<Rightarrow> pyval \<Rightarrow> pyval io" where
  "embed_query net self text sent =
     (case embed_documents net self [text] sent of
        (Inl e, sent') \<Rightarrow> (Inl e, sent')
      | (Inr vs, sent') \<Rightarrow> (getitem0 (OList vs), sent'))"

text \<open>\<open>aembed_query\<close> (line 146).\<close>

definition aembed_query :: "provider \<Rightarrow> hcx_embeddings \<Rightarrow> pyval \<Rightarrow> pyval coroutine" where
  "aembed_query net self text = Coroutine (\<lambda>sent.
     case getitem0 (OCoroutine (aembed_documents net self [text])) of
       Inl e \<Rightarrow> (Inl e, sent)
     | Inr v \<Rightarrow> await_value v sent)"

section \<open>Derived notions and example data\<close>

text \<open>
  The call that \<open>_send_request\<close> issues for a string or a dict, and the call that
  \<open>_asend_request\<close> issues for any value; \<open>send_request_typed\<close> and \<open>asend_request_eq\<close>
  below prove that these are the calls of the two functions.
\<close>

definition blocking_call :: "hcx_embeddings \<Rightarrow> pyval \<Rightarrow> http_call" where
  "blocking_call self messages =
     HTTPSConnection_request (ncp_api_base self) ''POST''
       (''/testapp/v1/api-tools/embedding/'' @ model self @ ''/'' @ get_secret_value (app_id self))
       (json_dumps (if isinstance_str messages then PDict [(''text'', messages)] else messages))
       [(''Content-Type'', ''application/json''),
        (''X-NCP-CLOVASTUDIO-API-KEY'', get_secret_value (api_key self)),
        (''X-NCP-APIGW-API-KEY'', get_secret_value (api_gw_key self))]"

definition async_call :: "hcx_embeddings \<Rightarrow> pyval \<Rightarrow> http_call" where
  "async_call self messages =
     ClientSession_post
       (''https://'' @ ncp_api_base self @ ''/testapp/v1/api-tools/embedding/'' @ model self
          @ ''/'' @ get_secret_value (app_id self))
       (json_dumps messages)
       [(''Content-Type'', ''application/json''),
        (''X-NCP-CLOVASTUDIO-API-KEY'', get_secret_value (api_key self)),
        (''X-NCP-APIGW-API-KEY'', get_secret_value (api_gw_key self))]"

text \<open>
  What the two functions make of the provider's reply: the exception of the transport,
  the exception of the decoding (each library with its own decoding), the exception of
  the parser, or the outcome of the status test.
\<close>

definition receive :: "http_lib \<Rightarrow> reply \<Rightarrow> pyerr + pyval" where
  "receive lib r =
     (case r of
        Failed msg \<Rightarrow> Inl (TransportError lib msg)
      | Response response \<Rightarrow>
          (case (case lib of HttpClient \<Rightarrow> read_decode_utf8 response
                          | Aiohttp \<Rightarrow> response_text response) of
             Inl e \<Rightarrow> Inl e
           | Inr text \<Rightarrow>
               (case json_loads text of Inl e \<Rightarrow> Inl e | Inr result \<Rightarrow> check_result result)))"

text \<open>
  Example data: a success response that carries the vector \<open>v\<close>, a failure response, a
  configured instance, a provider that answers its \<open>n\<close>-th call (counted from 0) with the
  vector \<open>[n]\<close>, and a provider that rejects its second call.
\<close>

definition ok_response :: "pyval \<Rightarrow> pyval" where
  "ok_response v =
     PDict [(''status'', PDict [(''code'', PStr ''20000'')]),
            (''result'', PDict [(''embedding'', v)])]"

definition error_response :: pyval where
  "error_response =
     PDict [(''status'', PDict [(''code'', PStr ''40001''), (''message'', PStr ''Bad request'')])]"

definition example_self :: hcx_embeddings where
  "example_self =
     \<lparr>model = ''clir-emb-dolphin'', api_key = SecretStr ''key'', api_gw_key = SecretStr ''gw'',
      app_id = SecretStr ''app'', ncp_api_base = ''clovastudio.apigw.ntruss.com''\<rparr>"

definition counting_provider :: provider where
  "counting_provider sent call =
     Body (JsonText (ok_response (PList [PInt (int (length sent))])))"



definition second_call_rejected :: provider where
  "second_call_rejected sent call =
     (if length sent = 1 then Body (JsonText error_response)
      else Body (JsonText (ok_response (PList [PInt (int (length sent))]))))"

section \<open>The two request functions, step by step\<close>

lemma isinstance_dict_wrap:
  "isinstance_str m \<or> isinstance_dict m \<Longrightarrow>
   isinstance_dict (if isinstance_str m then PDict [(''text'', m)] else m)"
  by (cases m) simp_all

lemma send_request_typed:
  assumes "isinstance_str m \<or> isinstance_dict m"
  shows "send_request net self m sent =
           (receive HttpClient (net sent (blocking_call self m)), sent @ [blocking_call self m])"
  using isinstance_dict_wrap [OF assms]
  by (simp add: send_request_def blocking_call_def receive_def Let_def
           split: reply.splits sum.splits)

lemma send_request_untyped:
  assumes "\<not> isinstance_str m" "\<not> isinstance_dict m"
  shows "send_request net self m sent =
           (Inl (TypeError ''Messages should be a string or a dictionary with 'text' key''), sent)"
  using assms by (simp add: send_request_def)

lemma send_request_snd:
  "snd (send_request net self m sent) =
     sent @ (if isinstance_str m \<or> isinstance_dict m then [blocking_call self m] else [])"
  by (simp add: send_request_typed send_request_untyped)

lemma send_request_Inr:
  assumes "fst (send_request net self m sent) = Inr v"
  shows "send_request net self m sent = (Inr v, sent @ [blocking_call self m])"
proof (cases "isinstance_str m \<or> isinstance_dict m")
  case True
  then show ?thesis using assms by (simp add: send_request_typed)
next
  case False
  then show ?thesis using assms by (simp add: send_request_untyped)
qed

lemma asend_request_eq:
  "await (asend_request net self m) sent =
     (receive Aiohttp (net sent (async_call self m)), sent @ [async_call self m])"
  by (simp add: asend_request_def async_call_def receive_def Let_def
           split: reply.splits sum.splits)

lemma receive_Body:
  "receive lib (Body text) =
     (case json_loads text of Inl e \<Rightarrow> Inl e | Inr result \<Rightarrow> check_result result)"
  by (cases lib)
     (simp_all add: receive_def Body_def read_decode_utf8_def response_text_def decoded_def)

lemma receive_parsed: "receive lib (Body (JsonText result)) = check_result result"
  by (simp add: receive_Body)

lemma receive_ok: "receive lib (Body (JsonText (ok_response v))) = Inr v"
  by (simp add: receive_parsed check_result_def ok_response_def)

lemma receive_error:
  "receive lib (Body (JsonText error_response)) = Inl (PyException error_response)"
  by (simp add: receive_parsed check_result_def error_response_def)

lemma getitem_TypeError:
  "getitem v key = Inl (TypeError msg) \<Longrightarrow> msg = ''subscription with a string key''"
  by (cases v) (auto split: option.splits)

lemma check_result_TypeError:
  "check_result result = Inl (TypeError msg) \<Longrightarrow> msg = ''subscription with a string key''"
  by (auto simp add: check_result_def split: sum.splits if_splits dest: getitem_TypeError)

lemma receive_not_rejection:
  "receive lib r \<noteq> Inl (TypeError ''Messages should be a string or a dictionary with 'text' key'')"
proof
  assume a: "receive lib r = Inl (TypeError ''Messages should be a string or a dictionary with 'text' key'')"
  then obtain result where "check_result result
      = Inl (TypeError ''Messages should be a string or a dictionary with 'text' key'')"
    by (cases r; cases lib)
       (auto simp add: receive_def read_decode_utf8_def response_text_def decoded_def
          split: sum.splits json_text.splits option.splits if_splits elim: json_loads.elims)
  then show False
    using check_result_TypeError by fastforce
qed

section \<open>The two loops\<close>

text \<open>
  Induction on \<open>texts\<close>, with the accumulator \<open>embeddings\<close> and the calls made so far
  generalised: each round of the loop changes both.
\<close>

lemma get_embedding_loop_ok:
  assumes "length vs = length texts"
    and "\<forall>i<length texts.
           fst (send_request net self (texts ! i)
                  (sent @ map (blocking_call self) (take i texts))) = Inr (vs ! i)"
  shows "get_embedding_loop net self texts embeddings sent =
           (Inr (embeddings @ vs), sent @ map (blocking_call self) texts)"
  using assms
proof (induction texts arbitrary: vs embeddings sent)
  case Nil
  then show ?case by simp
next
  case (Cons t ts)
  obtain v vs' where vs: "vs = v # vs'"
    using Cons.prems(1) by (cases vs) auto
  have "fst (send_request net self t sent) = Inr v"
    using Cons.prems(2) [rule_format, of 0] by (simp add: vs)
  then have step: "send_request net self t sent = (Inr v, sent @ [blocking_call self t])"
    by (rule send_request_Inr)
  have rest: "\<forall>i<length ts.
      fst (send_request net self (ts ! i)
             ((sent @ [blocking_call self t]) @ map (blocking_call self) (take i ts)))
        = Inr (vs' ! i)"
  proof (intro allI impI)
    fix i assume "i < length ts"
    then show "fst (send_request net self (ts ! i)
             ((sent @ [blocking_call self t]) @ map (blocking_call self) (take i ts)))
        = Inr (vs' ! i)"
      using Cons.prems(2) [rule_format, of "Suc i"] by (simp add: vs)
  qed
  have len: "length vs' = length ts"
    using Cons.prems(1) by (simp add: vs)
  show ?case
    using Cons.IH [OF len rest, of "embeddings @ [v]"] by (simp add: step vs)
qed

lemma aget_embedding_loop_ok:
  assumes "length vs = length texts"
    and "\<forall>i<length texts.
           fst (await (asend_request net self (texts ! i))
                  (sent @ map (async_call self) (take i texts))) = Inr (vs ! i)"
  shows "aget_embedding_loop net self texts embeddings sent =
           (Inr (embeddings @ vs), sent @ map (async_call self) texts)"
  using assms
proof (induction texts arbitrary: vs embeddings sent)
  case Nil
  then show ?case by simp
next
  case (Cons t ts)
  obtain v vs' where vs: "vs = v # vs'"
    using Cons.prems(1) by (cases vs) auto
  have "fst (await (asend_request net self t) sent) = Inr v"
    using Cons.prems(2) [rule_format, of 0] by (simp add: vs)
  then have step: "await (asend_request net self t) sent = (Inr v, sent @ [async_call self t])"
    by (simp add: asend_request_eq)
  have rest: "\<forall>i<length ts.
      fst (await (asend_request net self (ts ! i))
             ((sent @ [async_call self t]) @ map (async_call self) (take i ts)))
        = Inr (vs' ! i)"
  proof (intro allI impI)
    fix i assume "i < length ts"
    then show "fst (await (asend_request net self (ts ! i))
             ((sent @ [async_call self t]) @ map (async_call self) (take i ts)))
        = Inr (vs' ! i)"
      using Cons.prems(2) [rule_format, of "Suc i"] by (simp add: vs)
  qed
  have len: "length vs' = length ts"
    using Cons.prems(1) by (simp add: vs)
  show ?case
    using Cons.IH [OF len rest, of "embeddings @ [v]"] by (simp add: step vs)
qed

lemma get_embedding_loop_fails:
  assumes "k < length texts"
    and "\<forall>i<k. \<not> isl (fst (send_request net self (texts ! i)
                  (sent @ map (blocking_call self) (take i texts))))"
    and "fst (send_request net self (texts ! k)
                  (sent @ map (blocking_call self) (take k texts))) = Inl e"
  shows "get_embedding_loop net self texts embeddings sent =
           (Inl e, snd (send_request net self (texts ! k)
                          (sent @ map (blocking_call self) (take k texts))))"
  using assms
proof (induction texts arbitrary: k embeddings sent)
  case Nil
  then show ?case by simp
next
  case (Cons t ts)
  show ?case
  proof (cases k)
    case 0
    then show ?thesis using Cons.prems(3)
      by (cases "send_request net self t sent") auto
  next
    case (Suc j)
    have "\<not> isl (fst (send_request net self t sent))"
      using Cons.prems(2) [rule_format, of 0] Suc by simp
    then obtain v where "fst (send_request net self t sent) = Inr v"
      by (cases "fst (send_request net self t sent)") auto
    then have step: "send_request net self t sent = (Inr v, sent @ [blocking_call self t])"
      by (rule send_request_Inr)
    have j: "j < length ts" using Cons.prems(1) Suc by simp
    have before: "\<forall>i<j. \<not> isl (fst (send_request net self (ts ! i)
             ((sent @ [blocking_call self t]) @ map (blocking_call self) (take i ts))))"
    proof (intro allI impI)
      fix i assume "i < j"
      then show "\<not> isl (fst (send_request net self (ts ! i)
             ((sent @ [blocking_call self t]) @ map (blocking_call self) (take i ts))))"
        using Cons.prems(2) [rule_format, of "Suc i"] Suc by simp
    qed
    have at: "fst (send_request net self (ts ! j)
             ((sent @ [blocking_call self t]) @ map (blocking_call self) (take j ts))) = Inl e"
      using Cons.prems(3) Suc by simp
    show ?thesis
      using Cons.IH [OF j before at, of "embeddings @ [v]"] Suc by (simp add: step)
  qed
qed

lemma aget_embedding_loop_fails:
  assumes "k < length texts"
    and "\<forall>i<k. \<not> isl (fst (await (asend_request net self (texts ! i))
                  (sent @ map (async_call self) (take i texts))))"
    and "fst (await (asend_request net self (texts ! k))
                  (sent @ map (async_call self) (take k texts))) = Inl e"
  shows "aget_embedding_loop net self texts embeddings sent =
           (Inl e, sent @ map (async_call self) (take (Suc k) texts))"
  using assms
proof (induction texts arbitrary: k embeddings sent)
  case Nil
  then show ?case by simp
next
  case (Cons t ts)
  show ?case
  proof (cases k)
    case 0
    then show ?thesis using Cons.prems(3) by (simp add: asend_request_eq)
  next
    case (Suc j)
    have "\<not> isl (fst (await (asend_request net self t) sent))"
      using Cons.prems(2) [rule_format, of 0] Suc by simp
    then obtain v where "fst (await (asend_request net self t) sent) = Inr v"
      by (cases "fst (await (asend_request net self t) sent)") auto
    then have step: "await (asend_request net self t) sent = (Inr v, sent @ [async_call self t])"
      by (simp add: asend_request_eq)
    have j: "j < length ts" using Cons.prems(1) Suc by simp
    have before: "\<forall>i<j. \<not> isl (fst (await (asend_request net self (ts ! i))
             ((sent @ [async_call self t]) @ map (async_call self) (take i ts))))"
    proof (intro allI impI)
      fix i assume "i < j"
      then show "\<not> isl (fst (await (asend_request net self (ts ! i))
             ((sent @ [async_call self t]) @ map (async_call self) (take i ts))))"
        using Cons.prems(2) [rule_format, of "Suc i"] Suc by simp
    qed
    have at: "fst (await (asend_request net self (ts ! j))
             ((sent @ [async_call self t]) @ map (async_call self) (take j ts))) = Inl e"
      using Cons.prems(3) Suc by simp
    show ?thesis
      using Cons.IH [OF j before at, of "embeddings @ [v]"] Suc by (simp add: step)
  qed
qed

lemma results_listed:
  assumes "\<forall>i<n. \<not> isl (f i)"
  shows "\<exists>vs. length vs = n \<and> (\<forall>i<n. f i = Inr (vs ! i))"
proof -
  let ?vs = "map (\<lambda>i. projr (f i)) [0..<n]"
  have "length ?vs = n" by simp
  moreover have "\<forall>i<n. f i = Inr (?vs ! i)"
    using assms by (simp add: sum.expand)
  ultimately show ?thesis by blast
qed

lemma embed_documents_single:
  "embed_documents net self [text] sent =
     (case send_request net self text sent of
        (Inl e, sent') \<Rightarrow> (Inl e, sent')
      | (Inr v, sent') \<Rightarrow> (Inr [v], sent'))"
  by (simp add: embed_documents_def get_embedding_def split: prod.splits sum.splits)

lemma aembed_documents_eq:
  "await (aembed_documents net self texts) sent = aget_embedding_loop net self texts [] sent"
  by (simp add: aembed_documents_def aget_embedding_def)

section \<open>Query embedding\<close>

text \<open>
  The blocking wrapper is the single request: \<open>embed_query(text)\<close> returns what
  \<open>_send_request(text)\<close> returns and makes the same call; it is the first and only element
  of \<open>embed_documents([text])\<close>, and an exception of the batch is its exception.
\<close>

lemma embed_query_eq_send_request:
  "embed_query net self text sent = send_request net self text sent"
  by (simp add: embed_query_def embed_documents_single split: prod.splits sum.splits)

lemma embed_query_first_of_batch:
  "embed_query net self text sent =
     (case embed_documents net self [text] sent of
        (Inl e, sent') \<Rightarrow> (Inl e, sent')
      | (Inr vs, sent') \<Rightarrow> (Inr (hd vs), sent'))
   \<and> (\<forall>vs sent'. embed_documents net self [text] sent = (Inr vs, sent') \<longrightarrow> length vs = 1)"
  by (auto simp add: embed_query_def embed_documents_single split: prod.splits sum.splits)

text \<open>
  The non-blocking wrapper raises \<open>TypeError\<close> on every input and makes no call, because
  line 146 subscripts the coroutine object before awaiting.
\<close>

lemma aembed_query_TypeError:
  "await (aembed_query net self text) sent =
     (Inl (TypeError '''coroutine' object is not subscriptable''), sent)"
  by (simp add: aembed_query_def)

text \<open>
  C1. The claim is that \<open>embed_query(text)\<close> equals \<open>embed_documents([text])[0]\<close> and that
  \<open>aembed_query(text)\<close> equals the first element of the awaited \<open>aembed_documents([text])\<close>.
  The first half holds (\<open>embed_query_first_of_batch\<close>). The second half fails: for the
  text \<open>"hello"\<close> and a provider that answers with the vector \<open>v\<close>, awaiting
  \<open>aembed_documents(["hello"])\<close> returns \<open>[v]\<close> after one call, while awaiting
  \<open>aembed_query("hello")\<close> raises \<open>TypeError\<close> and makes no call.
\<close>

theorem aembed_query_never_returns_first_vector:
  "await (aembed_documents (\<lambda>sent call. Body (JsonText (ok_response v))) self [PStr ''hello'']) []
     = (Inr [v], [async_call self (PStr ''hello'')])
   \<and> await (aembed_query (\<lambda>sent call. Body (JsonText (ok_response v))) self (PStr ''hello'')) []
     = (Inl (TypeError '''coroutine' object is not subscriptable''), [])"
  by (simp add: aembed_documents_eq asend_request_eq receive_ok aembed_query_TypeError)

section \<open>The request that is sent\<close>

text \<open>
  The blocking path sends, for a string \<open>s\<close>, one POST to the path
  \<open>/testapp/v1/api-tools/embedding/{model}/{app_id}\<close> of the host, with the three headers
  and the body \<open>{"text": s}\<close>.
\<close>

lemma send_request_str_call:
  "snd (send_request net self (PStr s) sent) =
     sent @ [HTTPSConnection_request (ncp_api_base self) ''POST''
               (''/testapp/v1/api-tools/embedding/'' @ model self @ ''/''
                  @ get_secret_value (app_id self))
               (json_dumps (PDict [(''text'', PStr s)]))
               [(''Content-Type'', ''application/json''),
                (''X-NCP-CLOVASTUDIO-API-KEY'', get_secret_value (api_key self)),
                (''X-NCP-APIGW-API-KEY'', get_secret_value (api_gw_key self))]]"
  by (simp add: send_request_snd blocking_call_def)

text \<open>
  C2. The claim is that both paths send, for a string input, a POST with the body
  \<open>{"text": input}\<close>, the embedding path and the three headers. The blocking path does
  (\<open>send_request_str_call\<close>). The non-blocking path sends the URL and the headers of the
  claim, but for the string \<open>"hello"\<close> its body is the serialised string itself, which is
  not the serialised object \<open>{"text": "hello"}\<close>: \<open>_asend_request\<close> has no counterpart of
  lines 73 to 76.
\<close>

theorem asend_request_sends_bare_string:
  "snd (await (asend_request net self (PStr ''hello'')) []) =
     [ClientSession_post
        (''https://'' @ ncp_api_base self @ ''/testapp/v1/api-tools/embedding/'' @ model self
           @ ''/'' @ get_secret_value (app_id self))
        (json_dumps (PStr ''hello''))
        [(''Content-Type'', ''application/json''),
         (''X-NCP-CLOVASTUDIO-API-KEY'', get_secret_value (api_key self)),
         (''X-NCP-APIGW-API-KEY'', get_secret_value (api_gw_key self))]]
   \<and> json_dumps (PStr ''hello'') \<noteq> json_dumps (PDict [(''text'', PStr ''hello'')])"
  by (simp add: asend_request_eq async_call_def json_dumps_def)

text \<open>
  C3. The claim is that an input that is neither a string nor a dict fails with the
  \<open>TypeError\<close> of line 78 before any request, on both paths. The blocking path does
  (\<open>send_request_untyped\<close>: the exception, and the list of calls unchanged). The
  non-blocking path has no such test: for the integer \<open>5\<close> it posts the body \<open>5\<close>, and
  when the provider answers with a vector it returns that vector.
\<close>

theorem asend_request_sends_integer:
  "await (asend_request (\<lambda>sent call. Body (JsonText (ok_response v))) self (PInt 5)) [] =
     (Inr v,
      [ClientSession_post
        (''https://'' @ ncp_api_base self @ ''/testapp/v1/api-tools/embedding/'' @ model self
           @ ''/'' @ get_secret_value (app_id self))
        (json_dumps (PInt 5))
        [(''Content-Type'', ''application/json''),
         (''X-NCP-CLOVASTUDIO-API-KEY'', get_secret_value (api_key self)),
         (''X-NCP-APIGW-API-KEY'', get_secret_value (api_gw_key self))]])"
  by (simp add: asend_request_eq receive_ok) (simp add: async_call_def)

section \<open>The response\<close>

text \<open>
  A parsed response without the key \<open>status\<close>, or one that is no dict, raises the
  exception of the subscription, not the one that carries the response.
\<close>

lemma check_result_without_status:
  "check_result (PDict []) = Inl (KeyError ''status'')"
  "check_result (PList []) = Inl (TypeError ''subscription with a string key'')"
  by (simp_all add: check_result_def)

text \<open>
  C4. Let the provider answer the request of either path with a body that parses to
  \<open>result\<close>, and let \<open>result\<close> have a status code, \<open>result['status']['code']\<close>. If the
  code is the string \<open>'20000'\<close> and \<open>result['result']['embedding']\<close> is \<open>v\<close>, both paths
  return exactly \<open>v\<close>. If the code is anything else, both paths raise the exception that
  carries \<open>result\<close>, and return no vector. The input of the blocking path is a string or
  a dict, as its annotation says; otherwise it sends no request.
\<close>

theorem single_text_status_code:
  assumes "isinstance_str m \<or> isinstance_dict m"
    and "net sent (blocking_call self m) = Body (JsonText result)"
    and "net sent (async_call self m) = Body (JsonText result)"
    and "getitem result ''status'' = Inr status"
    and "getitem status ''code'' = Inr code"
  shows "(code = PStr ''20000'' \<longrightarrow> getitem result ''result'' = Inr r \<longrightarrow>
            getitem r ''embedding'' = Inr v \<longrightarrow>
            fst (send_request net self m sent) = Inr v
            \<and> fst (await (asend_request net self m) sent) = Inr v)
       \<and> (code \<noteq> PStr ''20000'' \<longrightarrow>
            fst (send_request net self m sent) = Inl (PyException result)
            \<and> fst (await (asend_request net self m) sent) = Inl (PyException result))"
  using assms
  by (simp add: send_request_typed asend_request_eq receive_parsed check_result_def)

theorem single_text_status_code_witness:
  "fst (send_request (\<lambda>sent call. Body (JsonText (ok_response
          (PList [PFloat ''0.1'', PFloat ''0.2'', PFloat ''0.3'']))))
        example_self (PStr ''hello'') [])
     = Inr (PList [PFloat ''0.1'', PFloat ''0.2'', PFloat ''0.3''])
   \<and> fst (await (asend_request (\<lambda>sent call. Body (JsonText (ok_response
          (PList [PFloat ''0.1'', PFloat ''0.2'', PFloat ''0.3'']))))
        example_self (PStr ''hello'')) [])
     = Inr (PList [PFloat ''0.1'', PFloat ''0.2'', PFloat ''0.3''])
   \<and> fst (send_request (\<lambda>sent call. Body (JsonText error_response))
        example_self (PStr ''hello'') [])
     = Inl (PyException error_response)
   \<and> fst (await (asend_request (\<lambda>sent call. Body (JsonText error_response))
        example_self (PStr ''hello'')) [])
     = Inl (PyException error_response)"
  using single_text_status_code
          [where m = "PStr ''hello''" and sent = "[]" and self = example_self
             and net = "\<lambda>sent call. Body (JsonText (ok_response
                          (PList [PFloat ''0.1'', PFloat ''0.2'', PFloat ''0.3''])))"
             and result = "ok_response (PList [PFloat ''0.1'', PFloat ''0.2'', PFloat ''0.3''])"
             and status = "PDict [(''code'', PStr ''20000'')]"
             and code = "PStr ''20000''"
             and r = "PDict [(''embedding'', PList [PFloat ''0.1'', PFloat ''0.2'', PFloat ''0.3''])]"
             and v = "PList [PFloat ''0.1'', PFloat ''0.2'', PFloat ''0.3'']"]
        single_text_status_code
          [where m = "PStr ''hello''" and sent = "[]" and self = example_self
             and net = "\<lambda>sent call. Body (JsonText error_response)"
             and result = error_response
             and status = "PDict [(''code'', PStr ''40001''), (''message'', PStr ''Bad request'')]"
             and code = "PStr ''40001''"]
  by (simp add: ok_response_def error_response_def)




text \<open>
  C10. For every dict \<open>d\<close>, with or without a key \<open>"text"\<close>, the blocking path makes one
  call whose body is \<open>d\<close> serialised as it is, and its outcome is never the \<open>TypeError\<close>
  of line 78. For a string \<open>s\<close> the body is the serialised dict \<open>{"text": s}\<close>.
\<close>

theorem send_request_any_dict:
  "snd (send_request net self (PDict d) sent) =
     sent @ [HTTPSConnection_request (ncp_api_base self) ''POST''
               (''/testapp/v1/api-tools/embedding/'' @ model self @ ''/''
                  @ get_secret_value (app_id self))
               (json_dumps (PDict d))
               [(''Content-Type'', ''application/json''),
                (''X-NCP-CLOVASTUDIO-API-KEY'', get_secret_value (api_key self)),
                (''X-NCP-APIGW-API-KEY'', get_secret_value (api_gw_key self))]]
   \<and> fst (send_request net self (PDict d) sent)
        \<noteq> Inl (TypeError ''Messages should be a string or a dictionary with 'text' key'')
   \<and> snd (send_request net self (PStr s) sent) =
     sent @ [HTTPSConnection_request (ncp_api_base self) ''POST''
               (''/testapp/v1/api-tools/embedding/'' @ model self @ ''/''
                  @ get_secret_value (app_id self))
               (json_dumps (PDict [(''text'', PStr s)]))
               [(''Content-Type'', ''application/json''),
                (''X-NCP-CLOVASTUDIO-API-KEY'', get_secret_value (api_key self)),
                (''X-NCP-APIGW-API-KEY'', get_secret_value (api_gw_key self))]]"
  by (simp add: send_request_snd send_request_typed blocking_call_def receive_not_rejection)

section \<open>Batch embedding\<close>

text \<open>
  C5. Let there be \<open>N\<close> texts, and let the request for each text succeed when it is made
  after the requests for the texts before it. Then \<open>embed_documents\<close> returns a list of
  exactly \<open>N\<close> vectors, the \<open>i\<close>-th being the result of the request for the \<open>i\<close>-th
  text, and the calls it has made are the calls for the texts, one per text, in the order
  of the texts. The same holds for \<open>aembed_documents\<close>, awaited.
\<close>

theorem embed_documents_in_order:
  "((\<forall>i<length texts.
        \<not> isl (fst (send_request net self (texts ! i)
                      (sent @ map (blocking_call self) (take i texts))))) \<longrightarrow>
     (\<exists>vs. embed_documents net self texts sent =
             (Inr vs, sent @ map (blocking_call self) texts)
         \<and> length vs = length texts
         \<and> (\<forall>i<length texts.
               fst (send_request net self (texts ! i)
                      (sent @ map (blocking_call self) (take i texts))) = Inr (vs ! i))))
   \<and> ((\<forall>i<length texts.
        \<not> isl (fst (await (asend_request net self (texts ! i))
                      (sent @ map (async_call self) (take i texts))))) \<longrightarrow>
     (\<exists>vs. await (aembed_documents net self texts) sent =
             (Inr vs, sent @ map (async_call self) texts)
         \<and> length vs = length texts
         \<and> (\<forall>i<length texts.
               fst (await (asend_request net self (texts ! i))
                      (sent @ map (async_call self) (take i texts))) = Inr (vs ! i))))"
proof (intro conjI impI)
  assume "\<forall>i<length texts.
        \<not> isl (fst (send_request net self (texts ! i)
                      (sent @ map (blocking_call self) (take i texts))))"
  then obtain vs where vs: "length vs = length texts"
      "\<forall>i<length texts. fst (send_request net self (texts ! i)
          (sent @ map (blocking_call self) (take i texts))) = Inr (vs ! i)"
    using results_listed [of "length texts" "\<lambda>i. fst (send_request net self (texts ! i)
          (sent @ map (blocking_call self) (take i texts)))"] by blast
  have "embed_documents net self texts sent = (Inr vs, sent @ map (blocking_call self) texts)"
    using get_embedding_loop_ok [OF vs, of "[]"]
    by (simp add: embed_documents_def get_embedding_def)
  with vs show "\<exists>vs. embed_documents net self texts sent =
             (Inr vs, sent @ map (blocking_call self) texts)
         \<and> length vs = length texts
         \<and> (\<forall>i<length texts.
               fst (send_request net self (texts ! i)
                      (sent @ map (blocking_call self) (take i texts))) = Inr (vs ! i))"
    by blast
next
  assume "\<forall>i<length texts.
        \<not> isl (fst (await (asend_request net self (texts ! i))
                      (sent @ map (async_call self) (take i texts))))"
  then obtain vs where vs: "length vs = length texts"
      "\<forall>i<length texts. fst (await (asend_request net self (texts ! i))
          (sent @ map (async_call self) (take i texts))) = Inr (vs ! i)"
    using results_listed [of "length texts" "\<lambda>i. fst (await (asend_request net self (texts ! i))
          (sent @ map (async_call self) (take i texts)))"] by blast
  have "await (aembed_documents net self texts) sent =
          (Inr vs, sent @ map (async_call self) texts)"
    using aget_embedding_loop_ok [OF vs, of "[]"]
    by (simp add: aembed_documents_eq)
  with vs show "\<exists>vs. await (aembed_documents net self texts) sent =
             (Inr vs, sent @ map (async_call self) texts)
         \<and> length vs = length texts
         \<and> (\<forall>i<length texts.
               fst (await (asend_request net self (texts ! i))
                      (sent @ map (async_call self) (take i texts))) = Inr (vs ! i))"
    by blast
qed

theorem embed_documents_in_order_witness:
  "embed_documents counting_provider example_self [PStr ''a'', PStr ''b''] [] =
     (Inr [PList [PInt 0], PList [PInt 1]],
      [blocking_call example_self (PStr ''a''), blocking_call example_self (PStr ''b'')])
   \<and> await (aembed_documents counting_provider example_self [PStr ''a'', PStr ''b'']) [] =
     (Inr [PList [PInt 0], PList [PInt 1]],
      [async_call example_self (PStr ''a''), async_call example_self (PStr ''b'')])"
proof -
  have blocking: "\<forall>i<length [PStr ''a'', PStr ''b''].
      \<not> isl (fst (send_request counting_provider example_self ([PStr ''a'', PStr ''b''] ! i)
            ([] @ map (blocking_call example_self) (take i [PStr ''a'', PStr ''b'']))))"
    by (simp add: send_request_typed counting_provider_def receive_ok All_less_Suc)
  have async: "\<forall>i<length [PStr ''a'', PStr ''b''].
      \<not> isl (fst (await (asend_request counting_provider example_self ([PStr ''a'', PStr ''b''] ! i))
            ([] @ map (async_call example_self) (take i [PStr ''a'', PStr ''b'']))))"
    by (simp add: asend_request_eq counting_provider_def receive_ok All_less_Suc)
  from embed_documents_in_order
         [of "[PStr ''a'', PStr ''b'']" counting_provider example_self "[]"]
       blocking async
  obtain vs ws where
    "embed_documents counting_provider example_self [PStr ''a'', PStr ''b''] [] =
       (Inr vs, [] @ map (blocking_call example_self) [PStr ''a'', PStr ''b''])"
    "length vs = length [PStr ''a'', PStr ''b'']"
    "\<forall>i<length [PStr ''a'', PStr ''b''].
       fst (send_request counting_provider example_self ([PStr ''a'', PStr ''b''] ! i)
            ([] @ map (blocking_call example_self) (take i [PStr ''a'', PStr ''b''])))
         = Inr (vs ! i)"
    "await (aembed_documents counting_provider example_self [PStr ''a'', PStr ''b'']) [] =
       (Inr ws, [] @ map (async_call example_self) [PStr ''a'', PStr ''b''])"
    "length ws = length [PStr ''a'', PStr ''b'']"
    "\<forall>i<length [PStr ''a'', PStr ''b''].
       fst (await (asend_request counting_provider example_self ([PStr ''a'', PStr ''b''] ! i))
            ([] @ map (async_call example_self) (take i [PStr ''a'', PStr ''b''])))
         = Inr (ws ! i)"
    by blast
  then show ?thesis
    by (simp add: embed_documents_def get_embedding_def aembed_documents_eq
          send_request_typed asend_request_eq counting_provider_def receive_ok)
qed

text \<open>
  C6. Let the requests for the texts before position \<open>k\<close> succeed and the request for the
  text at position \<open>k\<close> raise \<open>e\<close>. Then \<open>embed_documents\<close> raises \<open>e\<close>: it returns no
  list. The calls it has made are those for the texts before \<open>k\<close> and, unless the text at
  \<open>k\<close> was refused before its request, the call for the text at \<open>k\<close>; there is no call for
  a later text. The same holds for \<open>aembed_documents\<close>, awaited, where the call for the text
  at \<open>k\<close> is always made.
\<close>

theorem embed_documents_aborts_at_first_failure:
  "(k < length texts \<longrightarrow>
     (\<forall>i<k. \<not> isl (fst (send_request net self (texts ! i)
               (sent @ map (blocking_call self) (take i texts))))) \<longrightarrow>
     fst (send_request net self (texts ! k)
               (sent @ map (blocking_call self) (take k texts))) = Inl e \<longrightarrow>
     embed_documents net self texts sent =
       (Inl e, sent @ map (blocking_call self) (take k texts)
                 @ (if isinstance_str (texts ! k) \<or> isinstance_dict (texts ! k)
                    then [blocking_call self (texts ! k)] else [])))
   \<and> (k < length texts \<longrightarrow>
     (\<forall>i<k. \<not> isl (fst (await (asend_request net self (texts ! i))
               (sent @ map (async_call self) (take i texts))))) \<longrightarrow>
     fst (await (asend_request net self (texts ! k))
               (sent @ map (async_call self) (take k texts))) = Inl e \<longrightarrow>
     await (aembed_documents net self texts) sent =
       (Inl e, sent @ map (async_call self) (take k texts) @ [async_call self (texts ! k)]))"
  using get_embedding_loop_fails [of k texts net self sent e "[]"]
        aget_embedding_loop_fails [of k texts net self sent e "[]"]
  by (simp add: embed_documents_def get_embedding_def aembed_documents_eq send_request_snd
        take_Suc_conv_app_nth)

theorem embed_documents_aborts_at_first_failure_witness:
  "embed_documents second_call_rejected example_self [PStr ''a'', PStr ''b'', PStr ''c''] [] =
     (Inl (PyException error_response),
      [blocking_call example_self (PStr ''a''), blocking_call example_self (PStr ''b'')])
   \<and> await (aembed_documents second_call_rejected example_self
              [PStr ''a'', PStr ''b'', PStr ''c'']) [] =
     (Inl (PyException error_response),
      [async_call example_self (PStr ''a''), async_call example_self (PStr ''b'')])"
  using embed_documents_aborts_at_first_failure
          [where texts = "[PStr ''a'', PStr ''b'', PStr ''c'']" and k = 1
             and e = "PyException error_response"
             and net = second_call_rejected and self = example_self and sent = "[]"]
  by (simp add: send_request_typed asend_request_eq second_call_rejected_def receive_ok
        receive_error)

text \<open>
  C9. On the empty list both batch functions return the empty list and make no call.
\<close>

theorem embed_documents_empty:
  "embed_documents net self [] sent = (Inr [], sent)
   \<and> await (aembed_documents net self []) sent = (Inr [], sent)"
  by (simp add: embed_documents_def get_embedding_def aembed_documents_eq)

section \<open>Construction\<close>

text \<open>
  A lookup fails exactly when the secret is neither in \<open>values\<close> with a true value nor in
  the environment with a non-empty value, and then with \<open>ValueError\<close>.
\<close>

lemma get_from_dict_or_env_Inl:
  "get_from_dict_or_env environ data key env_key = Inl e \<Longrightarrow>
     e = ValueError key
     \<and> \<not> ((\<exists>v. data key = Some v \<and> truthy v) \<or> (\<exists>s. environ env_key = Some s \<and> s \<noteq> []))"
  by (auto simp add: get_from_dict_or_env_def get_from_env_def
        split: option.splits if_splits field_value.splits)

lemma get_from_dict_or_env_Inr:
  "get_from_dict_or_env environ data key env_key = Inr v \<Longrightarrow>
     (\<exists>v. data key = Some v \<and> truthy v) \<or> (\<exists>s. environ env_key = Some s \<and> s \<noteq> [])"
  by (auto simp add: get_from_dict_or_env_def get_from_env_def
        split: option.splits if_splits field_value.splits)

text \<open>
  The validator alone, on a dict \<open>values\<close> in which the field \<open>model\<close> is a string: it
  succeeds if and only if each of the three secrets is there, in \<open>values\<close> under the name
  of its field or in its environment variable, and the model is \<open>clir-emb-dolphin\<close> or
  \<open>clir-sts-dolphin\<close>; when it does not succeed, it raises \<open>ValueError\<close>.
\<close>

lemma check_api_keys_decides:
  assumes "values ''model'' = Some (FStr m)"
  shows "((\<exists>values'. check_api_keys environ values = Inr values') \<longleftrightarrow>
            ((\<exists>v. values ''api_key'' = Some v \<and> truthy v)
               \<or> (\<exists>s. environ ''NCP_CLOVASTUDIO_API_KEY'' = Some s \<and> s \<noteq> []))
          \<and> ((\<exists>v. values ''api_gw_key'' = Some v \<and> truthy v)
               \<or> (\<exists>s. environ ''NCP_APIGW_API_KEY'' = Some s \<and> s \<noteq> []))
          \<and> ((\<exists>v. values ''app_id'' = Some v \<and> truthy v)
               \<or> (\<exists>s. environ ''NCP_EMB_APP_ID'' = Some s \<and> s \<noteq> []))
          \<and> (m = ''clir-emb-dolphin'' \<or> m = ''clir-sts-dolphin''))
       \<and> ((\<exists>values'. check_api_keys environ values = Inr values')
          \<or> (\<exists>msg. check_api_keys environ values = Inl (ValueError msg)))"
proof -
  let ?k1 = "get_from_dict_or_env environ values ''api_key'' ''NCP_CLOVASTUDIO_API_KEY''"
  let ?k2 = "get_from_dict_or_env environ values ''api_gw_key'' ''NCP_APIGW_API_KEY''"
  let ?k3 = "get_from_dict_or_env environ values ''app_id'' ''NCP_EMB_APP_ID''"
  show ?thesis
  proof (cases ?k1)
    case (Inl e)
    from get_from_dict_or_env_Inl [OF Inl] show ?thesis
      by (simp add: check_api_keys_def Inl)
  next
    case k1: (Inr a)
    note p1 = get_from_dict_or_env_Inr [OF k1]
    show ?thesis
    proof (cases ?k2)
      case (Inl e)
      from get_from_dict_or_env_Inl [OF Inl] show ?thesis
        by (simp add: check_api_keys_def k1 Inl)
    next
      case k2: (Inr b)
      note p2 = get_from_dict_or_env_Inr [OF k2]
      show ?thesis
      proof (cases ?k3)
        case (Inl e)
        from get_from_dict_or_env_Inl [OF Inl] show ?thesis
          by (simp add: check_api_keys_def k1 k2 Inl)
      next
        case k3: (Inr c)
        note p3 = get_from_dict_or_env_Inr [OF k3]
        show ?thesis
          using p1 p2 p3 assms by (simp add: check_api_keys_def k1 k2 k3)
      qed
    qed
  qed
qed

text \<open>
  The constructor, called with strings only: it succeeds if and only if each of the three
  secrets is there, as a keyword argument under the \<^emph>\<open>alias\<close> of its field or in its
  environment variable, and the model is left out or is one of the two identifiers;
  when it does not succeed, it raises \<open>ValidationError\<close>.
\<close>

lemma validate_secret_field_str:
  assumes "data alias = None \<or> (\<exists>s. data alias = Some (PStr s))"
  shows "validate_secret_field data name alias (values, errors) =
           (values(name \<mapsto> (case data alias of Some (PStr s) \<Rightarrow> FSecret (SecretStr s)
                                  | _ \<Rightarrow> FNone)), errors)"
  using assms by (auto simp add: validate_secret_field_def)

lemma validate_str_field_str:
  assumes "data alias = None \<or> (\<exists>s. data alias = Some (PStr s))"
  shows "validate_str_field data name alias d (values, errors) =
           (values(name \<mapsto> (case data alias of Some (PStr s) \<Rightarrow> FStr s | _ \<Rightarrow> FStr d)), errors)"
  using assms by (auto simp add: validate_str_field_def)

lemma truthy_secret_case:
  "data alias = None \<or> (\<exists>s. data alias = Some (PStr s)) \<Longrightarrow>
   truthy (case data alias of Some (PStr s) \<Rightarrow> FSecret (SecretStr s) | _ \<Rightarrow> FNone)
     \<longleftrightarrow> (\<exists>s. data alias = Some (PStr s) \<and> s \<noteq> [])"
  by auto

lemma HCXEmbeddings_decides:
  assumes strs: "\<forall>k. data k = None \<or> (\<exists>s. data k = Some (PStr s))"
  shows "((\<exists>instance. HCXEmbeddings environ data = Inr instance) \<longleftrightarrow>
            ((\<exists>s. data ''api_key'' = Some (PStr s) \<and> s \<noteq> [])
               \<or> (\<exists>s. environ ''NCP_CLOVASTUDIO_API_KEY'' = Some s \<and> s \<noteq> []))
          \<and> ((\<exists>s. data ''apigw_key'' = Some (PStr s) \<and> s \<noteq> [])
               \<or> (\<exists>s. environ ''NCP_APIGW_API_KEY'' = Some s \<and> s \<noteq> []))
          \<and> ((\<exists>s. data ''app_id'' = Some (PStr s) \<and> s \<noteq> [])
               \<or> (\<exists>s. environ ''NCP_EMB_APP_ID'' = Some s \<and> s \<noteq> []))
          \<and> (data ''model'' = None \<or> data ''model'' = Some (PStr ''clir-emb-dolphin'')
               \<or> data ''model'' = Some (PStr ''clir-sts-dolphin'')))
       \<and> ((\<exists>instance. HCXEmbeddings environ data = Inr instance)
          \<or> (\<exists>errors. HCXEmbeddings environ data = Inl (ValidationError errors)))"
proof -
  let ?m = "case data ''model'' of Some (PStr s) \<Rightarrow> s | _ \<Rightarrow> ''clir-emb-dolphin''"
  let ?sec = "\<lambda>alias. case data alias of Some (PStr s) \<Rightarrow> FSecret (SecretStr s) | _ \<Rightarrow> FNone"
  let ?vals = "[''model'' \<mapsto> FStr ?m, ''api_key'' \<mapsto> ?sec ''api_key'',
                  ''api_gw_key'' \<mapsto> ?sec ''apigw_key'', ''app_id'' \<mapsto> ?sec ''app_id'',
                  ''ncp_api_base'' \<mapsto> (case data ''ncp_api_base'' of Some (PStr s) \<Rightarrow> FStr s
                                       | _ \<Rightarrow> FStr ''clovastudio.apigw.ntruss.com'')]"
  have m: "(case data ''model'' of Some (PStr s) \<Rightarrow> FStr s | _ \<Rightarrow> FStr ''clir-emb-dolphin'')
             = FStr ?m"
    using strs [rule_format, of "''model''"] by auto
  have init: "HCXEmbeddings environ data =
     (case check_api_keys environ ?vals of
           Inr values' \<Rightarrow> Inr values'
         | Inl (ValueError msg) \<Rightarrow> Inl (ValidationError [(''__root__'', msg)])
         | Inl (TypeError msg) \<Rightarrow> Inl (ValidationError [(''__root__'', msg)])
         | Inl e \<Rightarrow> Inl e)"
    using strs
    by (simp add: HCXEmbeddings_def validate_secret_field_str validate_str_field_str m
          split: sum.split pyerr.split)
  have model: "?vals ''model'' = Some (FStr ?m)" by simp
  have mok: "(?m = ''clir-emb-dolphin'' \<or> ?m = ''clir-sts-dolphin'') \<longleftrightarrow>
      (data ''model'' = None \<or> data ''model'' = Some (PStr ''clir-emb-dolphin'')
               \<or> data ''model'' = Some (PStr ''clir-sts-dolphin''))"
    using strs [rule_format, of "''model''"] by auto
  note d = check_api_keys_decides [of "?vals" "?m" environ, OF model]
  have t1: "(\<exists>v. ?vals ''api_key'' = Some v \<and> truthy v) \<longleftrightarrow>
              (\<exists>s. data ''api_key'' = Some (PStr s) \<and> s \<noteq> [])"
    using truthy_secret_case [of data "''api_key''"] strs by simp
  have t2: "(\<exists>v. ?vals ''api_gw_key'' = Some v \<and> truthy v) \<longleftrightarrow>
              (\<exists>s. data ''apigw_key'' = Some (PStr s) \<and> s \<noteq> [])"
    using truthy_secret_case [of data "''apigw_key''"] strs by simp
  have t3: "(\<exists>v. ?vals ''app_id'' = Some v \<and> truthy v) \<longleftrightarrow>
              (\<exists>s. data ''app_id'' = Some (PStr s) \<and> s \<noteq> [])"
    using truthy_secret_case [of data "''app_id''"] strs by simp
  show ?thesis
  proof (cases "check_api_keys environ ?vals")
    case (Inr values')
    with d show ?thesis unfolding t1 t2 t3 mok init by auto
  next
    case (Inl e)
    with d obtain msg where e: "e = ValueError msg" by auto
    with Inl d show ?thesis unfolding t1 t2 t3 mok init by auto
  qed
qed

text \<open>
  The constructor, with the gateway key under its alias \<open>apigw_key\<close> and an empty
  environment: it succeeds, and the instance holds the three secrets.
\<close>

lemma HCXEmbeddings_with_alias:
  "HCXEmbeddings Map.empty
     [''api_key'' \<mapsto> PStr ''key'', ''apigw_key'' \<mapsto> PStr ''gw'', ''app_id'' \<mapsto> PStr ''app'']
   = Inr [''model'' \<mapsto> FStr ''clir-emb-dolphin'',
          ''ncp_api_base'' \<mapsto> FStr ''clovastudio.apigw.ntruss.com'',
          ''api_key'' \<mapsto> FSecret (SecretStr ''key''),
          ''api_gw_key'' \<mapsto> FSecret (SecretStr ''gw''),
          ''app_id'' \<mapsto> FSecret (SecretStr ''app'')]"
  by (simp add: HCXEmbeddings_def validate_str_field_def validate_secret_field_def
        check_api_keys_def get_from_dict_or_env_def get_from_env_def fun_upd_twist)

text \<open>
  The secrets from the environment, an unrecognized model: the error of the validator,
  reported by the constructor.
\<close>

lemma HCXEmbeddings_not_a_model:
  "HCXEmbeddings
     [''NCP_CLOVASTUDIO_API_KEY'' \<mapsto> ''key'', ''NCP_APIGW_API_KEY'' \<mapsto> ''gw'',
      ''NCP_EMB_APP_ID'' \<mapsto> ''app'']
     [''model'' \<mapsto> PStr ''not-a-model'']
   = Inl (ValidationError [(''__root__'',
        ''Invalid model. Choose from: {'clir-emb-dolphin', 'clir-sts-dolphin'}'')])"
  by (simp add: HCXEmbeddings_def validate_str_field_def validate_secret_field_def
        check_api_keys_def get_from_dict_or_env_def get_from_env_def)

text \<open>
  A model that the field refuses, such as \<open>None\<close>, with the three secrets there: the
  field is left out of \<open>values\<close>, line 65 raises \<open>KeyError\<close>, and the constructor lets it
  through.
\<close>

lemma HCXEmbeddings_model_None:
  "HCXEmbeddings Map.empty
     [''model'' \<mapsto> PNone,
      ''api_key'' \<mapsto> PStr ''key'', ''apigw_key'' \<mapsto> PStr ''gw'', ''app_id'' \<mapsto> PStr ''app'']
   = Inl (KeyError ''model'')"
  by (simp add: HCXEmbeddings_def validate_str_field_def validate_secret_field_def
        check_api_keys_def get_from_dict_or_env_def get_from_env_def)

text \<open>
  C7. The claim is that construction succeeds when the three secrets are present,
  explicitly or in the environment, and the model is recognized, and fails with the
  configuration error otherwise. The docstring of the class (lines 33 to 38) names the
  parameters \<open>api_key\<close>, \<open>api_gw_key\<close> and \<open>app_id\<close>. With the three secrets passed under
  these names, the default model and an empty environment, the constructor ignores the
  keyword \<open>api_gw_key\<close>, because the alias of the field is \<open>apigw_key\<close> (line 49); the
  validator finds no gateway key and raises \<open>ValueError\<close>, and the construction fails.
\<close>

theorem HCXEmbeddings_ignores_api_gw_key:
  "HCXEmbeddings Map.empty
     [''api_key'' \<mapsto> PStr ''key'', ''api_gw_key'' \<mapsto> PStr ''gw'', ''app_id'' \<mapsto> PStr ''app'']
   = Inl (ValidationError [(''__root__'', ''api_gw_key'')])"
  by (simp add: HCXEmbeddings_def validate_str_field_def validate_secret_field_def
        check_api_keys_def get_from_dict_or_env_def get_from_env_def)

end
